theory Spec2Isabelle
  imports Main
begin

section \<open>The host environment\<close>

text \<open>
  The hook \<^verbatim>\<open>useFullscreenControls\<close> of
  \<^verbatim>\<open>src/components/player/hooks/desktop/useFullscreenControls.ts\<close> talks to the browser
  through optional, vendor-prefixed properties. A property that the code tests before
  it uses it is an \<open>option\<close>: \<open>None\<close> is the absent (falsy) property. What a host
  method does when it is called is its \<open>behaviour\<close>.
\<close>

datatype behaviour =
  Resolves  \<comment> \<open>returns normally; a returned promise is fulfilled\<close>
| Rejects   \<comment> \<open>returns a promise that is rejected\<close>
| Throws    \<comment> \<open>throws synchronously\<close>

datatype js_error =
  ReferenceError  \<comment> \<open>an undeclared global (\<^verbatim>\<open>document\<close>, \<^verbatim>\<open>window\<close>) was read\<close>
| HostError       \<comment> \<open>what a host method threw or rejected with\<close>

type_synonym element = nat
type_synonym handler = nat

record ScreenOrientation =
  lock :: "behaviour option"
  unlock :: "behaviour option"

record Screen =
  orientation :: "ScreenOrientation option"

record Window =
  WebKitPlaybackTargetAvailabilityEvent :: bool  \<comment> \<open>is the property in \<^verbatim>\<open>window\<close>\<close>
  screen :: "Screen option"

record Document =
  pictureInPictureEnabled :: "bool option"  \<comment> \<open>\<open>None\<close>: the property is not in \<^verbatim>\<open>document\<close>\<close>
  fullscreenElement :: "element option"
  webkitFullscreenElement :: "element option"
  mozFullScreenElement :: "element option"
  msFullscreenElement :: "element option"
  exitFullscreen :: "behaviour option"
  webkitExitFullscreen :: "behaviour option"
  mozCancelFullScreen :: "behaviour option"
  msExitFullscreen :: "behaviour option"
  pictureInPictureElement :: "element option"
  exitPictureInPicture :: behaviour
  listeners :: "(string \<times> handler) list"  \<comment> \<open>the event listener list of the document\<close>

record HTMLDivElement =
  requestFullscreen :: "behaviour option"
  webkitRequestFullscreen :: "behaviour option"
  mozRequestFullScreen :: "behaviour option"
  msRequestFullscreen :: "behaviour option"

record HTMLVideoElement =
  webkitEnterFullscreen :: "behaviour option"
  requestPictureInPicture :: behaviour
  webkitShowPlaybackTargetPicker :: "behaviour option"

text \<open>The globals: \<open>None\<close> is \<^verbatim>\<open>typeof document === 'undefined'\<close>.\<close>

record host =
  document :: "Document option"
  window :: "Window option"

text \<open>\<^verbatim>\<open>UseFullscreenControlsProps\<close>: the two refs (\<open>None\<close> is \<^verbatim>\<open>current === null\<close>) and
  the shell's state; the four mutators appear as events below.\<close>

record props =
  containerRef :: "HTMLDivElement option"
  videoRef :: "HTMLVideoElement option"
  isFullscreen :: bool
  isPiPSupported :: bool
  isAirPlaySupported :: bool

section \<open>Effects\<close>

datatype api =
  RequestFullscreen | WebkitRequestFullscreen | MozRequestFullScreen | MsRequestFullscreen
| WebkitEnterFullscreen
| ExitFullscreen | WebkitExitFullscreen | MozCancelFullScreen | MsExitFullscreen
| OrientationLock string | OrientationUnlock
| ExitPictureInPicture | RequestPictureInPicture
| WebkitShowPlaybackTargetPicker

datatype event =
  Invoke api
| SetIsFullscreen bool
| SetIsPiPSupported bool
| SetIsAirPlaySupported bool
| ConsoleWarn string js_error
| ConsoleError string js_error

text \<open>
  A piece of code takes the events so far and returns how it ended (\<open>Inl\<close>: it threw,
  or the promise of an \<^verbatim>\<open>async\<close> function is rejected) with the events extended.
\<close>

type_synonym js = "event list \<Rightarrow> (js_error + unit) \<times> event list"

definition js_skip :: js where
  "js_skip t = (Inr (), t)"

definition js_throw :: "js_error \<Rightarrow> js" where
  "js_throw err t = (Inl err, t)"

definition js_emit :: "event \<Rightarrow> js" where
  "js_emit ev t = (Inr (), t @ [ev])"

definition js_seq :: "js \<Rightarrow> js \<Rightarrow> js" where
  "js_seq f g t = (case f t of (Inl err, t') \<Rightarrow> (Inl err, t') | (Inr _, t') \<Rightarrow> g t')"

definition js_try :: "js \<Rightarrow> (js_error \<Rightarrow> js) \<Rightarrow> js" where
  "js_try f h t = (case f t of (Inl err, t') \<Rightarrow> h err t' | (Inr u, t') \<Rightarrow> (Inr u, t'))"

text \<open>\<^verbatim>\<open>await obj.m()\<close>: a synchronous throw and a rejection both raise at the await.\<close>

definition js_await :: "api \<Rightarrow> behaviour \<Rightarrow> js" where
  "js_await m b = js_seq (js_emit (Invoke m))
     (case b of Resolves \<Rightarrow> js_skip | Rejects \<Rightarrow> js_throw HostError | Throws \<Rightarrow> js_throw HostError)"

text \<open>\<^verbatim>\<open>obj.m()\<close> with the result dropped, and \<^verbatim>\<open>obj.m().catch(() => { })\<close>: only a
  synchronous throw raises.\<close>

definition js_call :: "api \<Rightarrow> behaviour \<Rightarrow> js" where
  "js_call m b = js_seq (js_emit (Invoke m))
     (case b of Resolves \<Rightarrow> js_skip | Rejects \<Rightarrow> js_skip | Throws \<Rightarrow> js_throw HostError)"

text \<open>A property that is there: for an object-valued property the test of its
  truthiness, for \<^verbatim>\<open>'name' in obj\<close> the test itself.\<close>

definition present :: "'a option \<Rightarrow> bool" where
  "present x = (case x of None \<Rightarrow> False | Some y \<Rightarrow> True)"

section \<open>useFullscreenControls\<close>

subsection \<open>The capability probe (lines 24-31)\<close>

definition capability_probe :: "host \<Rightarrow> js" where
  "capability_probe e =
     js_seq
       (case document e of
          None \<Rightarrow> js_skip
        | Some d \<Rightarrow> js_emit (SetIsPiPSupported (present (pictureInPictureEnabled d))))
       (case window e of
          None \<Rightarrow> js_skip
        | Some w \<Rightarrow> js_emit (SetIsAirPlaySupported (WebKitPlaybackTargetAvailabilityEvent w)))"

subsection \<open>toggleFullscreen (lines 33-94)\<close>

text \<open>Lines 38-49: the \<^verbatim>\<open>if\<close>/\<^verbatim>\<open>else if\<close> chain of the entering branch.\<close>

definition request_chain :: "HTMLDivElement \<Rightarrow> HTMLVideoElement option \<Rightarrow> js" where
  "request_chain c vr =
     (case requestFullscreen c of
        Some b \<Rightarrow> js_await RequestFullscreen b
      | None \<Rightarrow>
     (case webkitRequestFullscreen c of
        Some b \<Rightarrow> js_await WebkitRequestFullscreen b
      | None \<Rightarrow>
     (case mozRequestFullScreen c of
        Some b \<Rightarrow> js_await MozRequestFullScreen b
      | None \<Rightarrow>
     (case msRequestFullscreen c of
        Some b \<Rightarrow> js_await MsRequestFullscreen b
      | None \<Rightarrow>
     (case vr of
        None \<Rightarrow> js_skip
      | Some v \<Rightarrow>
     (case webkitEnterFullscreen v of
        Some b \<Rightarrow> js_call WebkitEnterFullscreen b
      | None \<Rightarrow> js_skip))))))"

text \<open>Lines 52-58: the landscape lock, in its own \<^verbatim>\<open>try\<close>.\<close>

definition lock_landscape :: "host \<Rightarrow> js" where
  "lock_landscape e =
     (case window e of
        None \<Rightarrow> js_throw ReferenceError
      | Some w \<Rightarrow>
     (case screen w of
        None \<Rightarrow> js_skip
      | Some s \<Rightarrow>
     (case orientation s of
        None \<Rightarrow> js_skip
      | Some ori \<Rightarrow>
     (case lock ori of
        None \<Rightarrow> js_skip
      | Some b \<Rightarrow>
          js_try (js_await (OrientationLock ''landscape'') b)
            (\<lambda>err. js_emit (ConsoleWarn ''Orientation lock failed:'' err))))))"

text \<open>Lines 60-68: the handler of the outer \<^verbatim>\<open>try\<close> of the entering branch.\<close>

definition request_fallback :: "HTMLVideoElement option \<Rightarrow> js_error \<Rightarrow> js" where
  "request_fallback vr err =
     js_seq (js_emit (ConsoleWarn ''Fullscreen request failed, trying fallback:'' err))
       (case vr of
          None \<Rightarrow> js_skip
        | Some v \<Rightarrow>
       (case webkitEnterFullscreen v of
          None \<Rightarrow> js_skip
        | Some b \<Rightarrow>
            js_try (js_call WebkitEnterFullscreen b)
              (\<lambda>err'. js_emit (ConsoleError ''Final fullscreen fallback failed:'' err'))))"

text \<open>Lines 72-80: the chain of the exiting branch.\<close>

definition exit_chain :: "host \<Rightarrow> js" where
  "exit_chain e =
     (case document e of
        None \<Rightarrow> js_throw ReferenceError
      | Some d \<Rightarrow>
     (case exitFullscreen d of
        Some b \<Rightarrow> js_await ExitFullscreen b
      | None \<Rightarrow>
     (case webkitExitFullscreen d of
        Some b \<Rightarrow> js_await WebkitExitFullscreen b
      | None \<Rightarrow>
     (case mozCancelFullScreen d of
        Some b \<Rightarrow> js_await MozCancelFullScreen b
      | None \<Rightarrow>
     (case msExitFullscreen d of
        Some b \<Rightarrow> js_await MsExitFullscreen b
      | None \<Rightarrow> js_skip)))))"

text \<open>Lines 83-89: the unlock, not awaited, in its own \<^verbatim>\<open>try\<close>.\<close>

definition unlock_orientation :: "host \<Rightarrow> js" where
  "unlock_orientation e =
     (case window e of
        None \<Rightarrow> js_throw ReferenceError
      | Some w \<Rightarrow>
     (case screen w of
        None \<Rightarrow> js_skip
      | Some s \<Rightarrow>
     (case orientation s of
        None \<Rightarrow> js_skip
      | Some ori \<Rightarrow>
     (case unlock ori of
        None \<Rightarrow> js_skip
      | Some b \<Rightarrow>
          js_try (js_call OrientationUnlock b)
            (\<lambda>err. js_emit (ConsoleWarn ''Orientation unlock failed:'' err))))))"

definition toggleFullscreen :: "props \<Rightarrow> host \<Rightarrow> js" where
  "toggleFullscreen p e =
     (case containerRef p of
        None \<Rightarrow> js_skip
      | Some c \<Rightarrow>
          if \<not> isFullscreen p then
            js_try (js_seq (request_chain c (videoRef p)) (lock_landscape e))
              (request_fallback (videoRef p))
          else
            js_try (js_seq (exit_chain e) (unlock_orientation e))
              (\<lambda>err. js_emit (ConsoleError ''Failed to exit fullscreen:'' err)))"

subsection \<open>The passive fullscreen-change handler (lines 97-118)\<close>

text \<open>Lines 106-117: the orientation is locked or unlocked once more.\<close>

definition recheck_orientation :: "host \<Rightarrow> bool \<Rightarrow> js" where
  "recheck_orientation e isInFullscreen =
     (if isInFullscreen then
        (case window e of
           None \<Rightarrow> js_throw ReferenceError
         | Some w \<Rightarrow>
        (case screen w of
           None \<Rightarrow> js_skip
         | Some s \<Rightarrow>
        (case orientation s of
           None \<Rightarrow> js_skip
         | Some ori \<Rightarrow>
        (case lock ori of
           None \<Rightarrow> js_skip
         | Some b \<Rightarrow> js_call (OrientationLock ''landscape'') b))))
      else
        (case window e of
           None \<Rightarrow> js_throw ReferenceError
         | Some w \<Rightarrow>
        (case screen w of
           None \<Rightarrow> js_skip
         | Some s \<Rightarrow>
        (case orientation s of
           None \<Rightarrow> js_skip
         | Some ori \<Rightarrow>
        (case unlock ori of
           None \<Rightarrow> js_skip
         | Some b \<Rightarrow> js_try (js_call OrientationUnlock b) (\<lambda>err. js_skip))))))"

definition handleFullscreenChange :: "host \<Rightarrow> js" where
  "handleFullscreenChange e =
     (case document e of
        None \<Rightarrow> js_throw ReferenceError
      | Some d \<Rightarrow>
          (let isInFullscreen =
                 (present (fullscreenElement d) \<or> present (webkitFullscreenElement d) \<or>
                  present (mozFullScreenElement d) \<or> present (msFullscreenElement d))
           in js_seq (js_emit (SetIsFullscreen isInFullscreen))
                (recheck_orientation e isInFullscreen)))"

subsection \<open>The subscription effect and its cleanup (lines 120-130)\<close>

text \<open>
  The event listener list of the document holds a registration (type, callback) at most
  once: adding one that is there changes nothing, removing one takes it out.
\<close>

definition addEventListener :: "string \<Rightarrow> handler \<Rightarrow> Document \<Rightarrow> Document" where
  "addEventListener ty h d =
     (if (ty, h) \<in> set (listeners d) then d else d\<lparr>listeners := listeners d @ [(ty, h)]\<rparr>)"

definition removeEventListener :: "string \<Rightarrow> handler \<Rightarrow> Document \<Rightarrow> Document" where
  "removeEventListener ty h d = d\<lparr>listeners := removeAll (ty, h) (listeners d)\<rparr>"

definition subscribe :: "handler \<Rightarrow> Document \<Rightarrow> Document" where
  "subscribe h d =
     addEventListener ''MSFullscreenChange'' h
       (addEventListener ''mozfullscreenchange'' h
         (addEventListener ''webkitfullscreenchange'' h
           (addEventListener ''fullscreenchange'' h d)))"

definition cleanup :: "handler \<Rightarrow> Document \<Rightarrow> Document" where
  "cleanup h d =
     removeEventListener ''MSFullscreenChange'' h
       (removeEventListener ''mozfullscreenchange'' h
         (removeEventListener ''webkitfullscreenchange'' h
           (removeEventListener ''fullscreenchange'' h d)))"

text \<open>Mounting runs the effect with a new closure \<open>h\<close>; unmounting runs the cleanup
  that the effect returned, which holds the same closure. Effects run in the browser
  only, so both work on the document that is there.\<close>

fun mount_cycles :: "handler list \<Rightarrow> Document \<Rightarrow> Document" where
  "mount_cycles [] d = d"
| "mount_cycles (h # hs) d = mount_cycles hs (cleanup h (subscribe h d))"

subsection \<open>togglePictureInPicture (lines 133-144) and showAirPlayMenu (lines 146-152)\<close>

definition togglePictureInPicture :: "props \<Rightarrow> host \<Rightarrow> js" where
  "togglePictureInPicture p e =
     (case videoRef p of
        None \<Rightarrow> js_skip
      | Some v \<Rightarrow>
          if \<not> isPiPSupported p then js_skip
          else
            js_try
              (case document e of
                 None \<Rightarrow> js_throw ReferenceError
               | Some d \<Rightarrow>
                   if present (pictureInPictureElement d)
                   then js_await ExitPictureInPicture (exitPictureInPicture d)
                   else js_await RequestPictureInPicture (requestPictureInPicture v))
              (\<lambda>err. js_emit (ConsoleError ''Failed to toggle Picture-in-Picture:'' err)))"

definition showAirPlayMenu :: "props \<Rightarrow> js" where
  "showAirPlayMenu p =
     (case videoRef p of
        None \<Rightarrow> js_skip
      | Some v \<Rightarrow>
          if \<not> isAirPlaySupported p then js_skip
          else
            (case webkitShowPlaybackTargetPicker v of
               None \<Rightarrow> js_skip
             | Some b \<Rightarrow> js_call WebkitShowPlaybackTargetPicker b))"

section \<open>Observations\<close>

text \<open>The events of one call, and how the call ended.\<close>

definition trace :: "js \<Rightarrow> event list" where
  "trace f = snd (f [])"

definition outcome :: "js \<Rightarrow> js_error + unit" where
  "outcome f = fst (f [])"

definition invocations :: "event list \<Rightarrow> api list" where
  "invocations t = concat (map (\<lambda>ev. case ev of Invoke m \<Rightarrow> [m] | _ \<Rightarrow> []) t)"

text \<open>The values that a run passed to \<^verbatim>\<open>setIsFullscreen\<close>, in order.\<close>

definition isFullscreen_writes :: "event list \<Rightarrow> bool list" where
  "isFullscreen_writes t =
     concat (map (\<lambda>ev. case ev of SetIsFullscreen b \<Rightarrow> [b] | _ \<Rightarrow> []) t)"

text \<open>The calls of the fullscreen entry and exit methods, in order.\<close>

definition fullscreen_calls :: "event list \<Rightarrow> api list" where
  "fullscreen_calls t =
     filter (\<lambda>m. m \<in> set [RequestFullscreen, WebkitRequestFullscreen, MozRequestFullScreen,
                            MsRequestFullscreen, WebkitEnterFullscreen, ExitFullscreen,
                            WebkitExitFullscreen, MozCancelFullScreen, MsExitFullscreen])
       (invocations t)"

text \<open>The events of the orientation lock and unlock: the two calls and their warnings.
  What is left of a trace without them is the primary command.\<close>

fun orientation_event :: "event \<Rightarrow> bool" where
  "orientation_event (Invoke (OrientationLock s)) = True"
| "orientation_event (Invoke OrientationUnlock) = True"
| "orientation_event (ConsoleWarn s err) =
     (s = ''Orientation lock failed:'' \<or> s = ''Orientation unlock failed:'')"
| "orientation_event ev = False"

definition primary_events :: "event list \<Rightarrow> event list" where
  "primary_events t = filter (\<lambda>ev. \<not> orientation_event ev) t"

text \<open>The host with the behaviour of \<^verbatim>\<open>orientation.lock\<close> replaced by \<open>bl\<close> and that of
  \<^verbatim>\<open>orientation.unlock\<close> by \<open>bu\<close>, where the host has them.\<close>

definition with_orientation :: "behaviour \<Rightarrow> behaviour \<Rightarrow> host \<Rightarrow> host" where
  "with_orientation bl bu e =
     e\<lparr>window := map_option (\<lambda>w.
          w\<lparr>screen := map_option (\<lambda>s.
               s\<lparr>orientation := map_option (\<lambda>ori.
                    ori\<lparr>lock := map_option (\<lambda>b. bl) (lock ori),
                        unlock := map_option (\<lambda>b. bu) (unlock ori)\<rparr>) (orientation s)\<rparr>)
             (screen w)\<rparr>) (window e)\<rparr>"

text \<open>\<^verbatim>\<open>window.screen && window.screen.orientation && window.screen.orientation.lock\<close>, for
  a host that has a \<^verbatim>\<open>window\<close>.\<close>

definition lock_method :: "host \<Rightarrow> behaviour option" where
  "lock_method e =
     (case window e of None \<Rightarrow> None | Some w \<Rightarrow>
     (case screen w of None \<Rightarrow> None | Some s \<Rightarrow>
     (case orientation s of None \<Rightarrow> None | Some ori \<Rightarrow> lock ori)))"

text \<open>
  The two fallback chains as ordered tables of a method and its presence, to state which
  method of a chain a host exposes. The lists follow the order of the tests in the code.
\<close>

definition native_entry :: "HTMLVideoElement option \<Rightarrow> behaviour option" where
  "native_entry vr = (case vr of None \<Rightarrow> None | Some v \<Rightarrow> webkitEnterFullscreen v)"

definition entry_methods ::
  "HTMLDivElement \<Rightarrow> HTMLVideoElement option \<Rightarrow> (api \<times> behaviour option) list" where
  "entry_methods c vr =
     [(RequestFullscreen, requestFullscreen c),
      (WebkitRequestFullscreen, webkitRequestFullscreen c),
      (MozRequestFullScreen, mozRequestFullScreen c),
      (MsRequestFullscreen, msRequestFullscreen c),
      (WebkitEnterFullscreen, native_entry vr)]"

definition exit_methods :: "Document \<Rightarrow> (api \<times> behaviour option) list" where
  "exit_methods d =
     [(ExitFullscreen, exitFullscreen d),
      (WebkitExitFullscreen, webkitExitFullscreen d),
      (MozCancelFullScreen, mozCancelFullScreen d),
      (MsExitFullscreen, msExitFullscreen d)]"

definition fullscreen_chain :: "props \<Rightarrow> host \<Rightarrow> (api \<times> behaviour option) list" where
  "fullscreen_chain p e =
     (if isFullscreen p
      then (case document e of None \<Rightarrow> [] | Some d \<Rightarrow> exit_methods d)
      else (case containerRef p of None \<Rightarrow> [] | Some c \<Rightarrow> entry_methods c (videoRef p)))"

text \<open>The chain exposes its \<open>k\<close>-th method (counted from 0) and no other.\<close>

definition exposes_only :: "(api \<times> behaviour option) list \<Rightarrow> nat \<Rightarrow> bool" where
  "exposes_only ch k =
     (k < length ch \<and>
      map (\<lambda>mb. present (snd mb)) ch = (replicate (length ch) False)[k := True])"

text \<open>The first method of a chain that exists.\<close>

fun first_exposed :: "(api \<times> behaviour option) list \<Rightarrow> (api \<times> behaviour) option" where
  "first_exposed [] = None"
| "first_exposed ((m, None) # ch) = first_exposed ch"
| "first_exposed ((m, Some b) # ch) = Some (m, b)"

text \<open>The four event names of lines 120-129 and the registrations of a handler on them.\<close>

definition fullscreen_event_names :: "string list" where
  "fullscreen_event_names =
     [''fullscreenchange'', ''webkitfullscreenchange'', ''mozfullscreenchange'',
      ''MSFullscreenChange'']"

definition registrations :: "handler \<Rightarrow> (string \<times> handler) list" where
  "registrations h = map (\<lambda>ty. (ty, h)) fullscreen_event_names"

text \<open>Some concrete hosts and props, to run the commands on.\<close>

definition bare_container :: HTMLDivElement where
  "bare_container =
     \<lparr>requestFullscreen = None, webkitRequestFullscreen = None,
      mozRequestFullScreen = None, msRequestFullscreen = None\<rparr>"

definition webkit_container :: HTMLDivElement where
  "webkit_container = bare_container\<lparr>webkitRequestFullscreen := Some Resolves\<rparr>"

definition native_video :: HTMLVideoElement where
  "native_video =
     \<lparr>webkitEnterFullscreen = Some Throws, requestPictureInPicture = Resolves,
      webkitShowPlaybackTargetPicker = None\<rparr>"

definition plain_document :: Document where
  "plain_document =
     \<lparr>pictureInPictureEnabled = None, fullscreenElement = None,
      webkitFullscreenElement = None, mozFullScreenElement = None,
      msFullscreenElement = None, exitFullscreen = None, webkitExitFullscreen = None,
      mozCancelFullScreen = None, msExitFullscreen = None, pictureInPictureElement = None,
      exitPictureInPicture = Resolves, listeners = []\<rparr>"

definition locking_window :: Window where
  "locking_window =
     \<lparr>WebKitPlaybackTargetAvailabilityEvent = False,
      screen = Some \<lparr>orientation = Some \<lparr>lock = Some Resolves, unlock = Some Resolves\<rparr>\<rparr>\<rparr>"

definition locking_host :: host where
  "locking_host = \<lparr>document = Some plain_document, window = Some locking_window\<rparr>"

definition moz_exit_host :: host where
  "moz_exit_host =
     \<lparr>document = Some (plain_document\<lparr>mozCancelFullScreen := Some Rejects\<rparr>),
      window = Some locking_window\<rparr>"

definition toggle_props :: "HTMLDivElement \<Rightarrow> HTMLVideoElement option \<Rightarrow> bool \<Rightarrow> props" where
  "toggle_props c vr fs =
     \<lparr>containerRef = Some c, videoRef = vr, isFullscreen = fs, isPiPSupported = False,
      isAirPlaySupported = False\<rparr>"

text \<open>
  A piece of code is uniform when its outcome and the events it adds do not depend on
  the events before it; \<open>emits P\<close> says moreover that every event it adds satisfies \<open>P\<close>.
\<close>

definition emits :: "(event \<Rightarrow> bool) \<Rightarrow> js \<Rightarrow> bool" where
  "emits P f = ((\<forall>t. f t = (outcome f, t @ trace f)) \<and> list_all P (trace f))"

abbreviation uniform :: "js \<Rightarrow> bool" where
  "uniform \<equiv> emits (\<lambda>ev. True)"

section \<open>How the building blocks run\<close>

lemmas js_defs = js_skip_def js_throw_def js_emit_def js_seq_def js_try_def
  js_await_def js_call_def trace_def outcome_def

lemma emitsI:
  assumes "\<And>t. f t = (r, t @ u)" and "list_all P u"
  shows "emits P f"
proof -
  from assms(1)[of "[]"] have "outcome f = r" "trace f = u"
    by (simp_all add: outcome_def trace_def)
  with assms show ?thesis by (simp add: emits_def)
qed

lemma emitsD: "emits P f \<Longrightarrow> f t = (outcome f, t @ trace f)"
  by (simp add: emits_def)

lemma emits_all: "emits P f \<Longrightarrow> list_all P (trace f)"
  by (simp add: emits_def)

lemma emits_skip: "emits P js_skip"
  by (rule emitsI[where r="Inr ()" and u="[]"]) (simp_all add: js_skip_def)

lemma emits_throw: "emits P (js_throw err)"
  by (rule emitsI[where r="Inl err" and u="[]"]) (simp_all add: js_throw_def)

lemma emits_emit: "P ev \<Longrightarrow> emits P (js_emit ev)"
  by (rule emitsI[where r="Inr ()" and u="[ev]"]) (simp_all add: js_emit_def)

lemma emits_seq:
  assumes f: "emits P f" and g: "emits P g"
  shows "emits P (js_seq f g)"
proof (cases "outcome f")
  case (Inl err)
  show ?thesis
  proof (rule emitsI[where r="Inl err" and u="trace f"])
    fix t show "js_seq f g t = (Inl err, t @ trace f)"
      by (simp add: js_seq_def emitsD[OF f] Inl)
  qed (rule emits_all[OF f])
next
  case (Inr u)
  show ?thesis
  proof (rule emitsI[where r="outcome g" and u="trace f @ trace g"])
    fix t show "js_seq f g t = (outcome g, t @ trace f @ trace g)"
      by (simp add: js_seq_def emitsD[OF f] emitsD[OF g] Inr)
  qed (simp add: emits_all[OF f] emits_all[OF g])
qed

lemma emits_try:
  assumes f: "emits P f" and h: "\<And>err. emits P (h err)"
  shows "emits P (js_try f h)"
proof (cases "outcome f")
  case (Inr u)
  show ?thesis
  proof (rule emitsI[where r="Inr u" and u="trace f"])
    fix t show "js_try f h t = (Inr u, t @ trace f)"
      by (simp add: js_try_def emitsD[OF f] Inr)
  qed (rule emits_all[OF f])
next
  case (Inl err)
  show ?thesis
  proof (rule emitsI[where r="outcome (h err)" and u="trace f @ trace (h err)"])
    fix t show "js_try f h t = (outcome (h err), t @ trace f @ trace (h err))"
      by (simp add: js_try_def emitsD[OF f] emitsD[OF h] Inl)
  qed (simp add: emits_all[OF f] emits_all[OF h])
qed

lemma emits_await: "P (Invoke m) \<Longrightarrow> emits P (js_await m b)"
  unfolding js_await_def
  by (cases b) (simp_all add: emits_seq emits_emit emits_skip emits_throw)

lemma emits_call: "P (Invoke m) \<Longrightarrow> emits P (js_call m b)"
  unfolding js_call_def
  by (cases b) (simp_all add: emits_seq emits_emit emits_skip emits_throw)

lemmas emits_intros = emits_skip emits_throw emits_emit emits_seq emits_try
  emits_await emits_call

lemma emits_request_chain:
  "(\<And>m. P (Invoke m)) \<Longrightarrow> emits P (request_chain c vr)"
  unfolding request_chain_def
  by (simp add: emits_intros split: option.split)

lemma emits_lock_landscape:
  "(\<And>m. P (Invoke m)) \<Longrightarrow> (\<And>s x. P (ConsoleWarn s x)) \<Longrightarrow> emits P (lock_landscape e)"
  unfolding lock_landscape_def
  by (simp add: emits_intros split: option.split)

lemma emits_unlock_orientation:
  "(\<And>m. P (Invoke m)) \<Longrightarrow> (\<And>s x. P (ConsoleWarn s x)) \<Longrightarrow> emits P (unlock_orientation e)"
  unfolding unlock_orientation_def
  by (simp add: emits_intros split: option.split)

lemma emits_request_fallback:
  "(\<And>m. P (Invoke m)) \<Longrightarrow> (\<And>s x. P (ConsoleWarn s x)) \<Longrightarrow> (\<And>s x. P (ConsoleError s x)) \<Longrightarrow>
   emits P (request_fallback vr err)"
  unfolding request_fallback_def
  by (simp add: emits_intros split: option.split)

lemma emits_exit_chain:
  "(\<And>m. P (Invoke m)) \<Longrightarrow> emits P (exit_chain e)"
  unfolding exit_chain_def
  by (simp add: emits_intros split: option.split)

lemma emits_toggleFullscreen:
  "(\<And>m. P (Invoke m)) \<Longrightarrow> (\<And>s x. P (ConsoleWarn s x)) \<Longrightarrow> (\<And>s x. P (ConsoleError s x)) \<Longrightarrow>
   emits P (toggleFullscreen p e)"
  unfolding toggleFullscreen_def
  by (simp add: emits_intros emits_request_chain emits_lock_landscape emits_unlock_orientation
      emits_request_fallback emits_exit_chain split: option.split)


lemma outcome_skip: "outcome js_skip = Inr ()" by (simp add: js_defs)
lemma trace_skip: "trace js_skip = []" by (simp add: js_defs)
lemma outcome_throw: "outcome (js_throw err) = Inl err" by (simp add: js_defs)
lemma trace_throw: "trace (js_throw err) = []" by (simp add: js_defs)
lemma outcome_emit: "outcome (js_emit ev) = Inr ()" by (simp add: js_defs)
lemma trace_emit: "trace (js_emit ev) = [ev]" by (simp add: js_defs)

lemma outcome_seq:
  "uniform g \<Longrightarrow> outcome (js_seq f g) = (case outcome f of Inl err \<Rightarrow> Inl err | Inr u \<Rightarrow> outcome g)"
  by (cases "f []"; cases "fst (f [])")
     (simp_all add: outcome_def[of "js_seq f g"] outcome_def[of f] js_seq_def emitsD)

lemma trace_seq:
  "uniform g \<Longrightarrow> trace (js_seq f g) = trace f @ (case outcome f of Inl err \<Rightarrow> [] | Inr u \<Rightarrow> trace g)"
  by (cases "f []"; cases "fst (f [])")
     (simp_all add: trace_def[of "js_seq f g"] trace_def[of f] outcome_def[of f] js_seq_def emitsD)

lemma outcome_try:
  "(\<And>err. uniform (h err)) \<Longrightarrow>
   outcome (js_try f h) = (case outcome f of Inl err \<Rightarrow> outcome (h err) | Inr u \<Rightarrow> Inr u)"
proof (cases "f []")
  case (Pair r t1)
  assume h: "\<And>err. uniform (h err)"
  show ?thesis
  proof (cases r)
    case (Inl err)
    with Pair emitsD[OF h, of err t1] show ?thesis
      by (simp add: outcome_def[of "js_try f h"] outcome_def[of f] js_try_def)
  next
    case (Inr u)
    with Pair show ?thesis
      by (simp add: outcome_def[of "js_try f h"] outcome_def[of f] js_try_def)
  qed
qed

lemma trace_try:
  "(\<And>err. uniform (h err)) \<Longrightarrow>
   trace (js_try f h) = trace f @ (case outcome f of Inl err \<Rightarrow> trace (h err) | Inr u \<Rightarrow> [])"
proof (cases "f []")
  case (Pair r t1)
  assume h: "\<And>err. uniform (h err)"
  show ?thesis
  proof (cases r)
    case (Inl err)
    with Pair emitsD[OF h, of err t1] show ?thesis
      by (simp add: trace_def[of "js_try f h"] trace_def[of f] outcome_def[of f] js_try_def)
  next
    case (Inr u)
    with Pair show ?thesis
      by (simp add: trace_def[of "js_try f h"] trace_def[of f] outcome_def[of f] js_try_def)
  qed
qed

lemma outcome_await: "outcome (js_await m b) = (if b = Resolves then Inr () else Inl HostError)"
  by (cases b) (simp_all add: js_defs)

lemma trace_await: "trace (js_await m b) = [Invoke m]"
  by (cases b) (simp_all add: js_defs)

lemma outcome_call: "outcome (js_call m b) = (if b = Throws then Inl HostError else Inr ())"
  by (cases b) (simp_all add: js_defs)

lemma trace_call: "trace (js_call m b) = [Invoke m]"
  by (cases b) (simp_all add: js_defs)

lemmas run_simps = outcome_skip trace_skip outcome_throw trace_throw outcome_emit trace_emit
  outcome_seq trace_seq outcome_try trace_try outcome_await trace_await outcome_call trace_call
  emits_intros

lemma outcome_request_fallback: "outcome (request_fallback vr err) = Inr ()"
  unfolding request_fallback_def
  by (simp add: run_simps split: option.split)

lemma outcome_lock_landscape:
  "outcome (lock_landscape e) = (case window e of None \<Rightarrow> Inl ReferenceError | Some w \<Rightarrow> Inr ())"
  unfolding lock_landscape_def
  by (simp add: run_simps split: option.split)

lemma outcome_unlock_orientation:
  "outcome (unlock_orientation e) = (case window e of None \<Rightarrow> Inl ReferenceError | Some w \<Rightarrow> Inr ())"
  unfolding unlock_orientation_def
  by (simp add: run_simps split: option.split)

lemmas block_uniform = emits_request_chain[where P="\<lambda>ev. True"] emits_lock_landscape[where P="\<lambda>ev. True"]
  emits_unlock_orientation[where P="\<lambda>ev. True"] emits_request_fallback[where P="\<lambda>ev. True"]
  emits_exit_chain[where P="\<lambda>ev. True"]

lemma outcome_toggleFullscreen: "outcome (toggleFullscreen p e) = Inr ()"
  unfolding toggleFullscreen_def
  by (simp add: run_simps block_uniform outcome_request_fallback split: option.split sum.split)

lemma writes_append: "isFullscreen_writes (t @ u) = isFullscreen_writes t @ isFullscreen_writes u"
  by (simp add: isFullscreen_writes_def)

lemma writes_Cons:
  "isFullscreen_writes (ev # t) =
     (case ev of SetIsFullscreen b \<Rightarrow> [b] | _ \<Rightarrow> []) @ isFullscreen_writes t"
  by (simp add: isFullscreen_writes_def)

lemma writes_none:
  "list_all (\<lambda>ev. \<forall>b. ev \<noteq> SetIsFullscreen b) t \<Longrightarrow> isFullscreen_writes t = []"
  by (induction t) (auto simp: isFullscreen_writes_def split: event.splits)

lemma emits_togglePictureInPicture:
  "(\<And>m. P (Invoke m)) \<Longrightarrow> (\<And>s x. P (ConsoleError s x)) \<Longrightarrow>
   emits P (togglePictureInPicture p e)"
  unfolding togglePictureInPicture_def
  by (simp add: emits_intros split: option.split)

lemma emits_showAirPlayMenu:
  "(\<And>m. P (Invoke m)) \<Longrightarrow> emits P (showAirPlayMenu p)"
  unfolding showAirPlayMenu_def
  by (simp add: emits_intros split: option.split)

lemma emits_capability_probe:
  "(\<And>b. P (SetIsPiPSupported b)) \<Longrightarrow> (\<And>b. P (SetIsAirPlaySupported b)) \<Longrightarrow>
   emits P (capability_probe e)"
  unfolding capability_probe_def
  by (simp add: emits_intros split: option.split)

lemma emits_recheck_orientation:
  "(\<And>m. P (Invoke m)) \<Longrightarrow> emits P (recheck_orientation e b)"
  unfolding recheck_orientation_def
  by (simp add: emits_intros split: option.split)

lemma writes_recheck: "isFullscreen_writes (trace (recheck_orientation e b)) = []"
  by (rule writes_none[OF emits_all[OF emits_recheck_orientation]]) simp

lemma primary_append: "primary_events (t @ u) = primary_events t @ primary_events u"
  by (simp add: primary_events_def)

lemma primary_lock_landscape: "primary_events (trace (lock_landscape e)) = []"
  unfolding lock_landscape_def
  by (simp add: run_simps primary_events_def split: option.split sum.split)

lemma primary_unlock_orientation: "primary_events (trace (unlock_orientation e)) = []"
  unfolding unlock_orientation_def
  by (simp add: run_simps primary_events_def split: option.split sum.split)

lemma window_with_orientation:
  "(window (with_orientation bl bu e) = None) = (window e = None)"
  by (simp add: with_orientation_def)

lemma exit_chain_with_orientation: "exit_chain (with_orientation bl bu e) = exit_chain e"
  by (simp add: exit_chain_def with_orientation_def)

lemma outcome_lock_with_orientation:
  "outcome (lock_landscape (with_orientation bl bu e)) = outcome (lock_landscape e)"
  by (cases "window e") (simp_all add: outcome_lock_landscape with_orientation_def)

lemma outcome_unlock_with_orientation:
  "outcome (unlock_orientation (with_orientation bl bu e)) = outcome (unlock_orientation e)"
  by (cases "window e") (simp_all add: outcome_unlock_orientation with_orientation_def)

lemma listeners_subscribe:
  "listeners (subscribe h d) =
     listeners d @ filter (\<lambda>r. r \<notin> set (listeners d)) (registrations h)"
  by (simp add: subscribe_def addEventListener_def registrations_def
      fullscreen_event_names_def)

lemma set_listeners_subscribe:
  "set (listeners (subscribe h d)) = set (listeners d) \<union> set (registrations h)"
  by (auto simp: listeners_subscribe)

lemma listeners_cleanup:
  "listeners (cleanup h d) = filter (\<lambda>r. r \<notin> set (registrations h)) (listeners d)"
  by (auto simp: cleanup_def removeEventListener_def removeAll_filter_not_eq
      registrations_def fullscreen_event_names_def intro!: filter_cong)

lemma filter_addEventListener:
  "(ty, h) \<in> set (registrations h) \<Longrightarrow>
   filter (\<lambda>r. r \<notin> set (registrations h)) (listeners (addEventListener ty h d)) =
   filter (\<lambda>r. r \<notin> set (registrations h)) (listeners d)"
  by (simp add: addEventListener_def)

lemma filter_subscribe:
  "filter (\<lambda>r. r \<notin> set (registrations h)) (listeners (subscribe h d)) =
   filter (\<lambda>r. r \<notin> set (registrations h)) (listeners d)"
proof -
  have mem: "(''fullscreenchange'', h) \<in> set (registrations h)"
    "(''webkitfullscreenchange'', h) \<in> set (registrations h)"
    "(''mozfullscreenchange'', h) \<in> set (registrations h)"
    "(''MSFullscreenChange'', h) \<in> set (registrations h)"
    by (simp_all add: registrations_def fullscreen_event_names_def)
  show ?thesis
    unfolding subscribe_def by (simp only: filter_addEventListener[OF mem(1)]
      filter_addEventListener[OF mem(2)] filter_addEventListener[OF mem(3)]
      filter_addEventListener[OF mem(4)])
qed

lemma listeners_cycle:
  "listeners (cleanup h (subscribe h d)) =
   filter (\<lambda>r. r \<notin> set (registrations h)) (listeners d)"
  by (simp add: listeners_cleanup filter_subscribe)

lemma listeners_mount_cycles:
  "listeners (mount_cycles hs d) =
   filter (\<lambda>r. \<not> (snd r \<in> set hs \<and> fst r \<in> set fullscreen_event_names)) (listeners d)"
proof (induction hs arbitrary: d)
  case Nil
  show ?case by simp
next
  case (Cons h hs)
  have "listeners (mount_cycles (h # hs) d) =
    filter (\<lambda>r. \<not> (snd r \<in> set hs \<and> fst r \<in> set fullscreen_event_names))
      (filter (\<lambda>r. r \<notin> set (registrations h)) (listeners d))"
    by (simp add: Cons.IH listeners_cycle)
  also have "\<dots> = filter (\<lambda>r. \<not> (snd r \<in> set (h # hs) \<and> fst r \<in> set fullscreen_event_names))
      (listeners d)"
    by (auto simp: registrations_def intro!: filter_cong)
  finally show ?case .
qed

lemmas example_defs = bare_container_def webkit_container_def native_video_def
  plain_document_def locking_window_def locking_host_def moz_exit_host_def toggle_props_def

lemma present_simps: "present None = False" "present (Some x) = True"
  by (simp_all add: present_def)

lemma not_present_iff: "(\<not> present x) = (x = None)"
  by (cases x) (simp_all add: present_def)

lemma not_Throws_iff: "(b \<noteq> Throws) = (b = Resolves \<or> b = Rejects)"
  by (cases b) simp_all

lemma trace_request_chain:
  "trace (request_chain c vr) =
     (case first_exposed (entry_methods c vr) of None \<Rightarrow> [] | Some (m, b) \<Rightarrow> [Invoke m])"
  unfolding request_chain_def entry_methods_def native_entry_def
  by (simp add: run_simps split: option.split)

lemma outcome_request_chain:
  "outcome (request_chain c vr) =
     (case first_exposed (entry_methods c vr) of
        None \<Rightarrow> Inr ()
      | Some (m, b) \<Rightarrow>
          if b = Resolves \<or> (m = WebkitEnterFullscreen \<and> b = Rejects) then Inr ()
          else Inl HostError)"
  unfolding request_chain_def entry_methods_def native_entry_def
  by (simp add: run_simps not_Throws_iff split: option.split)

lemma trace_exit_chain:
  "trace (exit_chain e) =
     (case document e of
        None \<Rightarrow> []
      | Some d \<Rightarrow>
          (case first_exposed (exit_methods d) of None \<Rightarrow> [] | Some (m, b) \<Rightarrow> [Invoke m]))"
  unfolding exit_chain_def exit_methods_def
  by (simp add: run_simps split: option.split)

lemma outcome_exit_chain:
  "outcome (exit_chain e) =
     (case document e of
        None \<Rightarrow> Inl ReferenceError
      | Some d \<Rightarrow>
          (case first_exposed (exit_methods d) of
             None \<Rightarrow> Inr ()
           | Some (m, b) \<Rightarrow> if b = Resolves then Inr () else Inl HostError))"
  unfolding exit_chain_def exit_methods_def
  by (simp add: run_simps split: option.split)

lemma trace_lock_landscape:
  "trace (lock_landscape e) =
     (case lock_method e of
        None \<Rightarrow> []
      | Some b \<Rightarrow>
          Invoke (OrientationLock ''landscape'') #
            (if b = Resolves then [] else [ConsoleWarn ''Orientation lock failed:'' HostError]))"
  unfolding lock_landscape_def lock_method_def
  by (simp add: run_simps split: option.split)

lemma trace_request_fallback:
  "trace (request_fallback vr err) =
     ConsoleWarn ''Fullscreen request failed, trying fallback:'' err #
       (case native_entry vr of
          None \<Rightarrow> []
        | Some b \<Rightarrow>
            Invoke WebkitEnterFullscreen #
              (if b = Throws then [ConsoleError ''Final fullscreen fallback failed:'' HostError]
               else []))"
  unfolding request_fallback_def native_entry_def
  by (simp add: run_simps split: option.split)

lemma trace_entering:
  assumes "containerRef p = Some c" and "\<not> isFullscreen p"
  shows "trace (toggleFullscreen p e) =
     trace (request_chain c (videoRef p)) @
       (case outcome (request_chain c (videoRef p)) of
          Inl err \<Rightarrow> trace (request_fallback (videoRef p) err)
        | Inr u \<Rightarrow>
            trace (lock_landscape e) @
              (case window e of
                 None \<Rightarrow> trace (request_fallback (videoRef p) ReferenceError)
               | Some w \<Rightarrow> []))"
  using assms
  by (simp add: toggleFullscreen_def run_simps block_uniform outcome_lock_landscape
      split: sum.split option.split)

lemma trace_exiting:
  assumes "containerRef p = Some c" and "isFullscreen p"
  shows "trace (toggleFullscreen p e) =
     trace (exit_chain e) @
       (case outcome (exit_chain e) of
          Inl err \<Rightarrow> [ConsoleError ''Failed to exit fullscreen:'' err]
        | Inr u \<Rightarrow>
            trace (unlock_orientation e) @
              (case window e of
                 None \<Rightarrow> [ConsoleError ''Failed to exit fullscreen:'' ReferenceError]
               | Some w \<Rightarrow> []))"
  using assms
  by (simp add: toggleFullscreen_def run_simps block_uniform outcome_unlock_orientation
      split: sum.split option.split)

lemma exposes_only_first:
  "exposes_only ch k \<Longrightarrow>
   \<exists>b. snd (ch ! k) = Some b \<and> first_exposed ch = Some (fst (ch ! k), b)"
proof (induction ch arbitrary: k)
  case Nil
  then show ?case by (simp add: exposes_only_def)
next
  case (Cons x ch)
  obtain m ob where x: "x = (m, ob)" by (cases x)
  show ?case
  proof (cases k)
    case 0
    with Cons.prems x show ?thesis
      by (cases ob) (simp_all add: exposes_only_def present_simps)
  next
    case (Suc k')
    with Cons.prems x have "ob = None" and "exposes_only ch k'"
      by (simp_all add: exposes_only_def not_present_iff)
    with Cons.IH[of k'] Suc x show ?thesis by simp
  qed
qed

lemma exposes_only_others:
  "exposes_only ch k \<Longrightarrow> j < length ch \<Longrightarrow> j \<noteq> k \<Longrightarrow> snd (ch ! j) = None"
proof -
  assume a: "exposes_only ch k" and j: "j < length ch" "j \<noteq> k"
  from a have "map (\<lambda>mb. present (snd mb)) ch ! j = (replicate (length ch) False)[k := True] ! j"
    by (simp add: exposes_only_def)
  with j show ?thesis by (simp add: not_present_iff)
qed

lemma fullscreen_calls_Nil: "fullscreen_calls [] = []"
  by (simp add: fullscreen_calls_def invocations_def)

lemma fullscreen_calls_append:
  "fullscreen_calls (t @ u) = fullscreen_calls t @ fullscreen_calls u"
  by (simp add: fullscreen_calls_def invocations_def)

lemma fullscreen_calls_Cons:
  "fullscreen_calls (ConsoleWarn s err # t) = fullscreen_calls t"
  "fullscreen_calls (ConsoleError s err # t) = fullscreen_calls t"
  "fullscreen_calls (SetIsFullscreen x # t) = fullscreen_calls t"
  "fullscreen_calls (SetIsPiPSupported x # t) = fullscreen_calls t"
  "fullscreen_calls (SetIsAirPlaySupported x # t) = fullscreen_calls t"
  "fullscreen_calls (Invoke (OrientationLock s) # t) = fullscreen_calls t"
  "fullscreen_calls (Invoke OrientationUnlock # t) = fullscreen_calls t"
  "fullscreen_calls (Invoke RequestFullscreen # t) = RequestFullscreen # fullscreen_calls t"
  "fullscreen_calls (Invoke WebkitRequestFullscreen # t) =
     WebkitRequestFullscreen # fullscreen_calls t"
  "fullscreen_calls (Invoke MozRequestFullScreen # t) = MozRequestFullScreen # fullscreen_calls t"
  "fullscreen_calls (Invoke MsRequestFullscreen # t) = MsRequestFullscreen # fullscreen_calls t"
  "fullscreen_calls (Invoke WebkitEnterFullscreen # t) =
     WebkitEnterFullscreen # fullscreen_calls t"
  "fullscreen_calls (Invoke ExitFullscreen # t) = ExitFullscreen # fullscreen_calls t"
  "fullscreen_calls (Invoke WebkitExitFullscreen # t) = WebkitExitFullscreen # fullscreen_calls t"
  "fullscreen_calls (Invoke MozCancelFullScreen # t) = MozCancelFullScreen # fullscreen_calls t"
  "fullscreen_calls (Invoke MsExitFullscreen # t) = MsExitFullscreen # fullscreen_calls t"
  by (simp_all add: fullscreen_calls_def invocations_def)

lemmas fullscreen_calls_simps = fullscreen_calls_Nil fullscreen_calls_append
  fullscreen_calls_Cons

lemma fullscreen_calls_lock_landscape: "fullscreen_calls (trace (lock_landscape e)) = []"
  by (simp add: trace_lock_landscape fullscreen_calls_simps split: option.split)

lemma fullscreen_calls_unlock_orientation:
  "fullscreen_calls (trace (unlock_orientation e)) = []"
  unfolding unlock_orientation_def
  by (simp add: run_simps fullscreen_calls_simps split: option.split sum.split)

lemma fullscreen_calls_request_fallback:
  "fullscreen_calls (trace (request_fallback vr err)) =
     (case native_entry vr of None \<Rightarrow> [] | Some b \<Rightarrow> [WebkitEnterFullscreen])"
  by (simp add: trace_request_fallback fullscreen_calls_simps split: option.split)

lemma lt_5_cases:
  "k < 5 \<Longrightarrow> k = 0 \<or> k = Suc 0 \<or> k = Suc (Suc 0) \<or> k = Suc (Suc (Suc 0)) \<or>
     k = Suc (Suc (Suc (Suc 0)))"
  by arith

lemma lt_4_cases:
  "k < 4 \<Longrightarrow> k = 0 \<or> k = Suc 0 \<or> k = Suc (Suc 0) \<or> k = Suc (Suc (Suc 0))"
  by arith

lemma entering_only_kth:
  assumes c: "containerRef p = Some c" and nf: "\<not> isFullscreen p"
    and ex: "exposes_only (entry_methods c (videoRef p)) k"
  shows "fullscreen_calls (trace (toggleFullscreen p e)) =
           (if fst (entry_methods c (videoRef p) ! k) = WebkitEnterFullscreen \<and>
               (snd (entry_methods c (videoRef p) ! k) = Some Throws \<or> window e = None)
            then [WebkitEnterFullscreen, WebkitEnterFullscreen]
            else [fst (entry_methods c (videoRef p) ! k)])"
proof -
  let ?ch = "entry_methods c (videoRef p)"
  from exposes_only_first[OF ex] obtain b where
    b: "snd (?ch ! k) = Some b" "first_exposed ?ch = Some (fst (?ch ! k), b)" by blast
  from ex have k5: "k < 5" by (simp add: exposes_only_def entry_methods_def)
  have len: "length ?ch = 5" by (simp add: entry_methods_def)
  have ne4: "k \<noteq> 4 \<Longrightarrow> native_entry (videoRef p) = None"
    using exposes_only_others[OF ex, of 4] by (simp add: entry_methods_def)
  have e4: "k = 4 \<Longrightarrow> native_entry (videoRef p) = Some b"
    using b(1) by (simp add: entry_methods_def)
  note tr = trace_entering[OF c nf, of e] trace_request_chain outcome_request_chain b(2)
    fullscreen_calls_simps fullscreen_calls_lock_landscape fullscreen_calls_request_fallback
  from lt_5_cases[OF k5] show ?thesis
  proof (elim disjE)
    assume k: "k = 0"
    with ne4 have ne: "native_entry (videoRef p) = None" by simp
    from k have m: "fst (?ch ! k) = RequestFullscreen" by (simp add: entry_methods_def)
    show ?thesis by (simp add: tr m ne split: option.split)
  next
    assume k: "k = Suc 0"
    with ne4 have ne: "native_entry (videoRef p) = None" by simp
    from k have m: "fst (?ch ! k) = WebkitRequestFullscreen" by (simp add: entry_methods_def)
    show ?thesis by (simp add: tr m ne split: option.split)
  next
    assume k: "k = Suc (Suc 0)"
    with ne4 have ne: "native_entry (videoRef p) = None" by simp
    from k have m: "fst (?ch ! k) = MozRequestFullScreen" by (simp add: entry_methods_def)
    show ?thesis by (simp add: tr m ne split: option.split)
  next
    assume k: "k = Suc (Suc (Suc 0))"
    with ne4 have ne: "native_entry (videoRef p) = None" by simp
    from k have m: "fst (?ch ! k) = MsRequestFullscreen" by (simp add: entry_methods_def)
    show ?thesis by (simp add: tr m ne split: option.split)
  next
    assume k: "k = Suc (Suc (Suc (Suc 0)))"
    with e4 have ne: "native_entry (videoRef p) = Some b" by simp
    from k have m: "fst (?ch ! k) = WebkitEnterFullscreen" by (simp add: entry_methods_def)
    show ?thesis
      by (cases b; cases "window e") (simp_all add: tr m ne b(1))
  qed
qed

lemma exiting_only_kth:
  assumes c: "containerRef p = Some c" and f: "isFullscreen p"
    and d: "document e = Some d"
    and ex: "exposes_only (exit_methods d) k"
  shows "fullscreen_calls (trace (toggleFullscreen p e)) = [fst (exit_methods d ! k)] \<and>
         fst (exit_methods d ! k) \<noteq> WebkitEnterFullscreen"
proof -
  let ?ch = "exit_methods d"
  from exposes_only_first[OF ex] obtain b where
    b: "snd (?ch ! k) = Some b" "first_exposed ?ch = Some (fst (?ch ! k), b)" by blast
  from ex have k4: "k < 4" by (simp add: exposes_only_def exit_methods_def)
  note tr = trace_exiting[OF c f, of e] trace_exit_chain outcome_exit_chain d b(2)
    fullscreen_calls_simps fullscreen_calls_unlock_orientation
  from lt_4_cases[OF k4] show ?thesis
  proof (elim disjE)
    assume k: "k = 0"
    then have m: "fst (?ch ! k) = ExitFullscreen" by (simp add: exit_methods_def)
    show ?thesis by (simp add: tr m split: option.split)
  next
    assume k: "k = Suc 0"
    then have m: "fst (?ch ! k) = WebkitExitFullscreen" by (simp add: exit_methods_def)
    show ?thesis by (simp add: tr m split: option.split)
  next
    assume k: "k = Suc (Suc 0)"
    then have m: "fst (?ch ! k) = MozCancelFullScreen" by (simp add: exit_methods_def)
    show ?thesis by (simp add: tr m split: option.split)
  next
    assume k: "k = Suc (Suc (Suc 0))"
    then have m: "fst (?ch ! k) = MsExitFullscreen" by (simp add: exit_methods_def)
    show ?thesis by (simp add: tr m split: option.split)
  qed
qed

lemma first_exposed_mem: "first_exposed ch = Some (m, b) \<Longrightarrow> m \<in> fst ` set ch"
  by (induction ch rule: first_exposed.induct) auto

lemma first_exposed_entry_methods:
  "first_exposed (entry_methods c vr) = Some (m, b) \<Longrightarrow>
   m \<noteq> OrientationLock s \<and> m \<noteq> OrientationUnlock"
proof -
  assume "first_exposed (entry_methods c vr) = Some (m, b)"
  then have "m \<in> fst ` set (entry_methods c vr)" by (rule first_exposed_mem)
  then show ?thesis by (auto simp: entry_methods_def)
qed

section \<open>Properties\<close>

text \<open>
  C1. Let \<open>toggleFullscreen\<close> run with a container, and let the host expose only the
  \<open>k\<close>-th method of the chain that the run takes: the entry chain
  (\<^verbatim>\<open>requestFullscreen\<close>, \<^verbatim>\<open>webkitRequestFullscreen\<close>, \<^verbatim>\<open>mozRequestFullScreen\<close>,
  \<^verbatim>\<open>msRequestFullscreen\<close> on the container, \<^verbatim>\<open>webkitEnterFullscreen\<close> on the media element)
  when not in fullscreen, the exit chain (\<^verbatim>\<open>exitFullscreen\<close>, \<^verbatim>\<open>webkitExitFullscreen\<close>,
  \<^verbatim>\<open>mozCancelFullScreen\<close>, \<^verbatim>\<open>msExitFullscreen\<close>) otherwise. Then that method is the
  only fullscreen method invoked: none of the earlier or later ones is. It is invoked
  once, except that \<^verbatim>\<open>webkitEnterFullscreen\<close> is invoked a second time by the handler of
  the outer \<^verbatim>\<open>try\<close> when its first call, or the code after it, threw.
\<close>

theorem fallback_chain_invokes_only_kth:
  assumes "containerRef p = Some c"
    and "exposes_only (fullscreen_chain p e) k"
  shows "set (fullscreen_calls (trace (toggleFullscreen p e))) = {fst (fullscreen_chain p e ! k)} \<and>
         fullscreen_calls (trace (toggleFullscreen p e)) =
           (if fst (fullscreen_chain p e ! k) = WebkitEnterFullscreen \<and>
               (snd (fullscreen_chain p e ! k) = Some Throws \<or> window e = None)
            then [WebkitEnterFullscreen, WebkitEnterFullscreen]
            else [fst (fullscreen_chain p e ! k)])"
proof (cases "isFullscreen p")
  case False
  with assms have ch: "fullscreen_chain p e = entry_methods c (videoRef p)"
    by (simp add: fullscreen_chain_def)
  from entering_only_kth[OF assms(1) False assms(2)[unfolded ch], of e] show ?thesis
    by (simp add: ch)
next
  case True
  with assms(2) obtain d where d: "document e = Some d"
    by (cases "document e") (simp_all add: fullscreen_chain_def exposes_only_def)
  with True have ch: "fullscreen_chain p e = exit_methods d"
    by (simp add: fullscreen_chain_def)
  from exiting_only_kth[OF assms(1) True d assms(2)[unfolded ch]] show ?thesis
    by (simp add: ch)
qed

theorem fallback_chain_invokes_only_kth_witness:
  "containerRef (toggle_props webkit_container None False) = Some webkit_container \<and>
   exposes_only (fullscreen_chain (toggle_props webkit_container None False) locking_host) 1 \<and>
   fullscreen_calls (trace (toggleFullscreen (toggle_props webkit_container None False)
     locking_host)) = [WebkitRequestFullscreen] \<and>
   exposes_only
     (fullscreen_chain (toggle_props bare_container (Some native_video) False) locking_host) 4 \<and>
   fullscreen_calls (trace (toggleFullscreen (toggle_props bare_container (Some native_video) False)
     locking_host)) = [WebkitEnterFullscreen, WebkitEnterFullscreen] \<and>
   exposes_only (fullscreen_chain (toggle_props bare_container None True) moz_exit_host) 2 \<and>
   fullscreen_calls (trace (toggleFullscreen (toggle_props bare_container None True)
     moz_exit_host)) = [MozCancelFullScreen]"
proof -
  note ev = example_defs fullscreen_chain_def entry_methods_def exit_methods_def
    exposes_only_def native_entry_def present_simps eval_nat_numeral
  have c1: "containerRef (toggle_props webkit_container None False) = Some webkit_container"
    and c2: "containerRef (toggle_props bare_container (Some native_video) False) =
      Some bare_container"
    and c3: "containerRef (toggle_props bare_container None True) = Some bare_container"
    by (simp_all add: toggle_props_def)
  have h1: "exposes_only
      (fullscreen_chain (toggle_props webkit_container None False) locking_host) 1"
    by (simp add: ev)
  have h2: "exposes_only
      (fullscreen_chain (toggle_props bare_container (Some native_video) False) locking_host) 4"
    by (simp add: ev)
  have h3: "exposes_only (fullscreen_chain (toggle_props bare_container None True) moz_exit_host) 2"
    by (simp add: ev)
  from fallback_chain_invokes_only_kth[OF c1 h1] fallback_chain_invokes_only_kth[OF c2 h2]
    fallback_chain_invokes_only_kth[OF c3 h3] c1 h1 h2 h3
  show ?thesis by (simp add: ev)
qed

text \<open>
  C2. Whatever the props, the host and the outcome of the fallback chains,
  \<open>toggleFullscreen\<close> never calls \<^verbatim>\<open>setIsFullscreen\<close>: the values written are the same
  after the command as before it, and a run of the command writes none. Neither do
  \<open>togglePictureInPicture\<close>, \<open>showAirPlayMenu\<close> and the capability probe; the passive
  fullscreen-change handler is the one piece of code that writes it, once per firing.
\<close>

theorem toggleFullscreen_never_writes_isFullscreen:
  "isFullscreen_writes (snd (toggleFullscreen p e t)) = isFullscreen_writes t \<and>
   isFullscreen_writes (trace (toggleFullscreen p e)) = [] \<and>
   isFullscreen_writes (trace (togglePictureInPicture p e)) = [] \<and>
   isFullscreen_writes (trace (showAirPlayMenu p)) = [] \<and>
   isFullscreen_writes (trace (capability_probe e)) = [] \<and>
   length (isFullscreen_writes (trace (handleFullscreenChange (e\<lparr>document := Some d\<rparr>)))) = 1"
proof -
  let ?P = "\<lambda>ev. \<forall>b. ev \<noteq> SetIsFullscreen b"
  have tf: "emits ?P (toggleFullscreen p e)"
    by (rule emits_toggleFullscreen) simp_all
  have 1: "isFullscreen_writes (trace (toggleFullscreen p e)) = []"
    by (rule writes_none[OF emits_all[OF tf]])
  have 0: "isFullscreen_writes (snd (toggleFullscreen p e t)) = isFullscreen_writes t"
    by (simp add: emitsD[OF tf] writes_append 1)
  have 2: "isFullscreen_writes (trace (togglePictureInPicture p e)) = []"
    by (rule writes_none[OF emits_all[OF emits_togglePictureInPicture]]) simp_all
  have 3: "isFullscreen_writes (trace (showAirPlayMenu p)) = []"
    by (rule writes_none[OF emits_all[OF emits_showAirPlayMenu]]) simp_all
  have 4: "isFullscreen_writes (trace (capability_probe e)) = []"
    by (rule writes_none[OF emits_all[OF emits_capability_probe]]) simp_all
  have 5: "length (isFullscreen_writes (trace (handleFullscreenChange (e\<lparr>document := Some d\<rparr>)))) = 1"
    by (simp add: handleFullscreenChange_def Let_def run_simps emits_recheck_orientation
        writes_Cons writes_recheck)
  from 0 1 2 3 4 5 show ?thesis by simp
qed

text \<open>
  C3. When the passive fullscreen-change handler fires, the one value it writes to
  \<^verbatim>\<open>isFullscreen\<close> is the disjunction of the truthiness of the four document properties
  \<^verbatim>\<open>fullscreenElement\<close>, \<^verbatim>\<open>webkitFullscreenElement\<close>, \<^verbatim>\<open>mozFullScreenElement\<close> and
  \<^verbatim>\<open>msFullscreenElement\<close> as the document has them then; the write is the first thing
  the handler does.
\<close>

theorem handler_writes_or:
  "isFullscreen_writes (trace (handleFullscreenChange (e\<lparr>document := Some d\<rparr>))) =
     [present (fullscreenElement d) \<or> present (webkitFullscreenElement d) \<or>
      present (mozFullScreenElement d) \<or> present (msFullscreenElement d)] \<and>
   hd (trace (handleFullscreenChange (e\<lparr>document := Some d\<rparr>))) =
     SetIsFullscreen (present (fullscreenElement d) \<or> present (webkitFullscreenElement d) \<or>
        present (mozFullScreenElement d) \<or> present (msFullscreenElement d))"
  by (simp add: handleFullscreenChange_def Let_def run_simps emits_recheck_orientation
      writes_Cons writes_recheck)

text \<open>
  C4. For every props and host, \<open>toggleFullscreen\<close> returns normally: it neither throws
  nor rejects. And whatever the orientation lock and unlock do when they are called
  (resolve, reject, throw), the rest of the run is the same: replacing their behaviour
  by any other leaves every event of the run that is not a lock or unlock call or its
  warning unchanged, so the primary fullscreen request and its outcome are not altered.
\<close>

theorem orientation_failure_is_swallowed:
  "outcome (toggleFullscreen p e) = Inr () \<and>
   primary_events (trace (toggleFullscreen p (with_orientation bl bu e))) =
     primary_events (trace (toggleFullscreen p e))"
proof
  show "outcome (toggleFullscreen p e) = Inr ()"
    by (rule outcome_toggleFullscreen)
  show "primary_events (trace (toggleFullscreen p (with_orientation bl bu e))) =
     primary_events (trace (toggleFullscreen p e))"
  proof (cases "containerRef p")
    case None
    then show ?thesis by (simp add: toggleFullscreen_def)
  next
    case (Some c)
    show ?thesis
    proof (cases "isFullscreen p")
      case False
      with Some show ?thesis
        by (simp add: toggleFullscreen_def run_simps block_uniform primary_append
            primary_lock_landscape outcome_lock_with_orientation split: sum.split)
    next
      case True
      with Some show ?thesis
        by (simp add: toggleFullscreen_def run_simps block_uniform primary_append
            primary_unlock_orientation outcome_unlock_with_orientation
            exit_chain_with_orientation split: sum.split)
    qed
  qed
qed

text \<open>
  C5, as stated, fails: with a container that has none of the four request methods and
  no media element, so that none of the five entry methods exists, the command still
  requests the landscape lock when the host has \<^verbatim>\<open>screen.orientation.lock\<close>, and that
  is all it does.
\<close>

theorem lock_requested_with_no_entry_method:
  "requestFullscreen bare_container = None \<and> webkitRequestFullscreen bare_container = None \<and>
   mozRequestFullScreen bare_container = None \<and> msRequestFullscreen bare_container = None \<and>
   native_entry None = None \<and>
   trace (toggleFullscreen (toggle_props bare_container None False) locking_host) =
     [Invoke (OrientationLock ''landscape'')]"
  by (simp add: example_defs native_entry_def toggleFullscreen_def request_chain_def
      lock_landscape_def js_defs)

text \<open>
  C5, amended. In the entering branch the landscape lock is requested exactly when the
  host has \<^verbatim>\<open>window.screen.orientation.lock\<close> and the entry chain did not throw or
  reject: the first entry method that exists returned normally, or none of the five
  exists. When it is requested it is the last call of the command, after the entry method
  if one was invoked.
\<close>

theorem lock_follows_completed_entry_chain:
  assumes "containerRef p = Some c" and "\<not> isFullscreen p"
  shows "(Invoke (OrientationLock ''landscape'') \<in> set (trace (toggleFullscreen p e))) =
           (present (lock_method e) \<and>
            (case first_exposed (entry_methods c (videoRef p)) of
               None \<Rightarrow> True
             | Some (m, b) \<Rightarrow> b = Resolves \<or> (m = WebkitEnterFullscreen \<and> b = Rejects))) \<and>
         (Invoke (OrientationLock ''landscape'') \<in> set (trace (toggleFullscreen p e)) \<longrightarrow>
            invocations (trace (toggleFullscreen p e)) =
              (case first_exposed (entry_methods c (videoRef p)) of
                 None \<Rightarrow> []
               | Some (m, b) \<Rightarrow> [m]) @ [OrientationLock ''landscape''])"
proof -
  have lm: "window e = None \<Longrightarrow> lock_method e = None"
    by (simp add: lock_method_def)
  note tr = trace_entering[OF assms] trace_request_chain outcome_request_chain
    trace_lock_landscape trace_request_fallback present_simps invocations_def
  show ?thesis
  proof (cases "first_exposed (entry_methods c (videoRef p))")
    case None
    then show ?thesis
      by (cases "window e"; cases "lock_method e") (auto simp: tr lm split: option.split)
  next
    case (Some mb)
    obtain m b where mb: "mb = (m, b)" by (cases mb)
    from Some mb have "m \<noteq> OrientationLock ''landscape''"
      by (rule_tac first_exposed_entry_methods[THEN conjunct1]) simp
    with Some mb show ?thesis
      by (cases "window e"; cases "lock_method e") (auto simp: tr lm split: option.split)
  qed
qed

theorem lock_follows_completed_entry_chain_witness:
  "containerRef (toggle_props webkit_container None False) = Some webkit_container \<and>
   \<not> isFullscreen (toggle_props webkit_container None False) \<and>
   invocations (trace (toggleFullscreen (toggle_props webkit_container None False) locking_host)) =
     [WebkitRequestFullscreen, OrientationLock ''landscape'']"
proof -
  have c: "containerRef (toggle_props webkit_container None False) = Some webkit_container"
    and f: "\<not> isFullscreen (toggle_props webkit_container None False)"
    by (simp_all add: toggle_props_def)
  from lock_follows_completed_entry_chain[OF c f, of locking_host] c f
  show ?thesis
    by (simp add: example_defs entry_methods_def native_entry_def lock_method_def present_simps)
qed

text \<open>
  C6. The capability probe never throws. Where \<^verbatim>\<open>document\<close> is undefined
  \<^verbatim>\<open>setIsPiPSupported\<close> is not called, where \<^verbatim>\<open>window\<close> is undefined
  \<^verbatim>\<open>setIsAirPlaySupported\<close> is not called, so the flag keeps its value; where the
  global exists the mutator is called once, with whether \<^verbatim>\<open>'pictureInPictureEnabled'\<close> is
  in the document, respectively \<^verbatim>\<open>'WebKitPlaybackTargetAvailabilityEvent'\<close> in the window.
  The four cases are all the hosts there are.
\<close>

theorem capability_probe_defensive:
  "outcome (capability_probe e) = Inr () \<and>
   trace (capability_probe \<lparr>document = None, window = None\<rparr>) = [] \<and>
   trace (capability_probe \<lparr>document = None, window = Some w\<rparr>) =
     [SetIsAirPlaySupported (WebKitPlaybackTargetAvailabilityEvent w)] \<and>
   trace (capability_probe \<lparr>document = Some d, window = None\<rparr>) =
     [SetIsPiPSupported (present (pictureInPictureEnabled d))] \<and>
   trace (capability_probe \<lparr>document = Some d, window = Some w\<rparr>) =
     [SetIsPiPSupported (present (pictureInPictureEnabled d)),
      SetIsAirPlaySupported (WebKitPlaybackTargetAvailabilityEvent w)]"
  by (simp add: capability_probe_def run_simps split: option.split)

text \<open>
  C8. The subscription effect registers the one handler on exactly the four event names
  \<^verbatim>\<open>fullscreenchange\<close>, \<^verbatim>\<open>webkitfullscreenchange\<close>, \<^verbatim>\<open>mozfullscreenchange\<close> and
  \<^verbatim>\<open>MSFullscreenChange\<close>, on every document: the listeners it had stay in place, in
  order, and those of the four registrations that it did not have yet are added after
  them, so afterwards it has all four. The cleanup after it removes exactly these four
  registrations and leaves every other registration of the document as it was. So after any sequence
  of mount/unmount cycles no registration of any of the mounted handlers on these names
  is left, and a document that started with no listener ends with none.
\<close>

theorem subscription_teardown_symmetric:
  "listeners (subscribe h (d\<lparr>listeners := []\<rparr>)) =
     [(''fullscreenchange'', h), (''webkitfullscreenchange'', h),
      (''mozfullscreenchange'', h), (''MSFullscreenChange'', h)] \<and>
   listeners (subscribe h d) =
     listeners d @ filter (\<lambda>r. r \<notin> set (listeners d)) (registrations h) \<and>
   set (listeners (subscribe h d)) = set (listeners d) \<union> set (registrations h) \<and>
   registrations h =
     [(''fullscreenchange'', h), (''webkitfullscreenchange'', h),
      (''mozfullscreenchange'', h), (''MSFullscreenChange'', h)] \<and>
   listeners (cleanup h (subscribe h d)) =
     filter (\<lambda>r. r \<notin> set (registrations h)) (listeners d) \<and>
   listeners (mount_cycles hs d) =
     filter (\<lambda>r. \<not> (snd r \<in> set hs \<and> fst r \<in> set fullscreen_event_names)) (listeners d) \<and>
   listeners (mount_cycles hs (d\<lparr>listeners := []\<rparr>)) = []"
proof -
  have "listeners (subscribe h (d\<lparr>listeners := []\<rparr>)) =
     [(''fullscreenchange'', h), (''webkitfullscreenchange'', h),
      (''mozfullscreenchange'', h), (''MSFullscreenChange'', h)]"
    by (simp add: subscribe_def addEventListener_def)
  moreover have "listeners (mount_cycles hs (d\<lparr>listeners := []\<rparr>)) = []"
    by (simp add: listeners_mount_cycles)
  moreover have "registrations h =
     [(''fullscreenchange'', h), (''webkitfullscreenchange'', h),
      (''mozfullscreenchange'', h), (''MSFullscreenChange'', h)]"
    by (simp add: registrations_def fullscreen_event_names_def)
  moreover note listeners_subscribe[of h d] set_listeners_subscribe[of h d]
    listeners_cycle[of h d] listeners_mount_cycles[of hs d]
  ultimately show ?thesis by blast
qed

text \<open>
  C9. \<open>togglePictureInPicture\<close> never throws or rejects. With a null media element
  reference, or with the capability flag false, it does nothing at all. Otherwise, with
  a document whose \<^verbatim>\<open>pictureInPictureElement\<close> is an element it calls
  \<^verbatim>\<open>document.exitPictureInPicture\<close> and nothing else, and with that property null it
  calls \<^verbatim>\<open>requestPictureInPicture\<close> on the media element and nothing else; a call
  that rejects or throws is followed by one \<^verbatim>\<open>console.error\<close>.
\<close>

theorem togglePictureInPicture_behaviour:
  "outcome (togglePictureInPicture p e) = Inr () \<and>
   trace (togglePictureInPicture (p\<lparr>videoRef := None\<rparr>) e) = [] \<and>
   trace (togglePictureInPicture (p\<lparr>isPiPSupported := False\<rparr>) e) = [] \<and>
   trace (togglePictureInPicture (p\<lparr>videoRef := Some v, isPiPSupported := True\<rparr>)
            (e\<lparr>document := Some (d\<lparr>pictureInPictureElement := Some x\<rparr>)\<rparr>)) =
     Invoke ExitPictureInPicture #
       (if exitPictureInPicture d = Resolves then []
        else [ConsoleError ''Failed to toggle Picture-in-Picture:'' HostError]) \<and>
   trace (togglePictureInPicture (p\<lparr>videoRef := Some v, isPiPSupported := True\<rparr>)
            (e\<lparr>document := Some (d\<lparr>pictureInPictureElement := None\<rparr>)\<rparr>)) =
     Invoke RequestPictureInPicture #
       (if requestPictureInPicture v = Resolves then []
        else [ConsoleError ''Failed to toggle Picture-in-Picture:'' HostError])"
  by (simp add: togglePictureInPicture_def run_simps present_def split: option.split)

text \<open>
  C10. When the container reference is null, \<open>toggleFullscreen\<close> returns at once and
  has invoked no browser API: no event at all is produced, whatever the media element
  supports, and in particular \<open>webkitEnterFullscreen\<close> is not reached.
\<close>

theorem toggleFullscreen_null_container:
  "outcome (toggleFullscreen (p\<lparr>containerRef := None\<rparr>) e) = Inr () \<and>
   trace (toggleFullscreen (p\<lparr>containerRef := None\<rparr>) e) = [] \<and>
   Invoke WebkitEnterFullscreen \<notin> set (trace (toggleFullscreen (p\<lparr>containerRef := None\<rparr>) e))"
  by (simp add: toggleFullscreen_def js_defs)

end
